theory Spec2Isabelle
  imports Main "HOL-Library.AList"
begin

section \<open>Frame subscriptions (Canvas state, src/index.js lines 197-209)\<close>

text \<open>
  A callback is a JavaScript function object; the code only ever compares callbacks with
  \<open>===\<close>, so a callback is modelled by its identity, a natural number.  The
  subscriber list is the array \<open>state.current.subscribers\<close>.
\<close>

type_synonym fn_id = nat

text \<open>\<open>state.current.subscribers.push(fn)\<close>\<close>

definition subscribe :: "fn_id \<Rightarrow> fn_id list \<Rightarrow> fn_id list" where
  "subscribe fn subscribers = subscribers @ [fn]"

text \<open>
  The function returned by \<open>subscribe(fn)\<close>:
  \<open>() => (state.current.subscribers = state.current.subscribers.filter(s => s === fn))\<close>
\<close>

definition unsubscribe :: "fn_id \<Rightarrow> fn_id list \<Rightarrow> fn_id list" where
  "unsubscribe fn subscribers = filter (\<lambda>s. s = fn) subscribers"

section \<open>Pointer picking (src/index.js lines 257-323)\<close>

text \<open>
  A scene object is known to the picking code through its identity (\<open>===\<close> in
  \<open>intersects.find\<close>), its \<open>uuid\<close> (the key of the \<open>hovered\<close> and
  \<open>clicked\<close> tables) and its \<open>__handlers\<close> table, which is absent
  (\<open>None\<close>) on an object that never received a handler prop.  A handler table maps
  an event name to the identity of a callback; \<open>handlers.hover\<close> is truthy exactly
  when the name is bound.  The scene is a function from object identities to these fields.
  The ray cast (\<open>raycaster.intersectObjects\<close>) belongs to the scene-graph library:
  its result, the list of intersection records in the library's order, is an input of
  the model.  An intersection record \<open>data\<close> holds the object that was hit
  (\<open>data.object\<close>) and where it was hit, here the distance along the ray.
\<close>

type_synonym obj_id = nat

record node =
  uuid :: string
  handlers :: "(string \<times> fn_id) list option"

type_synonym scene = "obj_id \<Rightarrow> node"

record hit =
  object_of :: obj_id
  distance :: nat

text \<open>
  A handler invocation: the object whose table the callback was read from, the callback,
  and the argument.  \<open>hover\<close> and \<open>click\<close> receive the intersection record,
  \<open>unhover\<close> is called without an argument.
\<close>

datatype event =
    CallHover obj_id fn_id hit
  | CallUnhover obj_id fn_id
  | CallClick obj_id fn_id hit

text \<open>
  The state a \<open>handleMove\<close> closure reads and writes: the \<open>hovered\<close> table
  (a JavaScript object used as a dictionary from uuid to object, in insertion order),
  the cursor indicator, and the trace of handler invocations.
\<close>

record pick_state =
  hovered :: "(string \<times> obj_id) list"
  cursor :: string
  calls :: "event list"

text \<open>
  \<open>intersect(event, fn)\<close>, lines 257-267: \<open>fn\<close> runs on every hit whose object
  carries a handler table, in list order; the whole hit list is returned.  The callbacks
  read \<open>object.__handlers\<close> first thing; the model hands them the table that the
  guard of line 263 has just found.
\<close>

definition intersect :: "scene \<Rightarrow> hit list \<Rightarrow> (hit \<Rightarrow> (string \<times> fn_id) list \<Rightarrow> 's \<Rightarrow> 's) \<Rightarrow> 's \<Rightarrow> 's \<times> hit list" where
  "intersect sc hits fn s =
     (fold (\<lambda>data s. case handlers (sc (object_of data)) of None \<Rightarrow> s | Some hs \<Rightarrow> fn data hs s) hits s, hits)"

text \<open>The callback \<open>handleMove\<close> passes to \<open>intersect\<close>, lines 273-283.\<close>

definition move_hit :: "scene \<Rightarrow> hit \<Rightarrow> (string \<times> fn_id) list \<Rightarrow> bool \<times> pick_state \<Rightarrow> bool \<times> pick_state" where
  "move_hit sc data hs = (\<lambda>(hover, st).
     (case map_of hs ''hover'' of
        None \<Rightarrow> (hover, st)
      | Some h \<Rightarrow>
          (if map_of (hovered st) (uuid (sc (object_of data))) = None
           then (True, st\<lparr>hovered := AList.update (uuid (sc (object_of data))) (object_of data) (hovered st),
                           calls := calls st @ [CallHover (object_of data) h data]\<rparr>)
           else (True, st))))"

text \<open>
  One iteration of \<open>Object.values(hovered).forEach\<close>, lines 288-293.  The test
  \<open>!intersects.length || !intersects.find(i => i.object === object)\<close> is by object
  identity; the deletion is by uuid.  Reading \<open>object.__handlers.unhover\<close> on an
  object without a handler table raises a TypeError: the result \<open>None\<close>.
\<close>

definition unhover_one :: "scene \<Rightarrow> hit list \<Rightarrow> obj_id \<Rightarrow> pick_state \<Rightarrow> pick_state option" where
  "unhover_one sc hits ob st =
     (if hits = [] \<or> ob \<notin> object_of ` set hits
      then (case handlers (sc ob) of
              None \<Rightarrow> None
            | Some hs \<Rightarrow>
                (let st1 = (case map_of hs ''unhover'' of
                              None \<Rightarrow> st
                            | Some u \<Rightarrow> st\<lparr>calls := calls st @ [CallUnhover ob u]\<rparr>)
                 in Some (st1\<lparr>hovered := AList.delete (uuid (sc ob)) (hovered st1)\<rparr>)))
      else Some st)"

text \<open>A \<open>forEach\<close> whose body may raise: the first failure ends the loop.\<close>

fun forEach :: "('a \<Rightarrow> 's \<Rightarrow> 's option) \<Rightarrow> 'a list \<Rightarrow> 's \<Rightarrow> 's option" where
  "forEach f [] s = Some s"
| "forEach f (x # xs) s = (case f x s of None \<Rightarrow> None | Some s' \<Rightarrow> forEach f xs s')"

text \<open>
  \<open>handleMove\<close>, lines 271-294, on the hit list of one pointer-move frame.
  \<open>cursor\<close> is the value the closure captured; \<open>setCursor\<close> is called only with a
  value other than that one, and the \<open>cursor\<close> of the state returned is the value of
  the component state after the call.  \<open>Object.values(hovered)\<close> is taken once, before
  the loop that deletes entries.
\<close>

definition handleMove :: "scene \<Rightarrow> hit list \<Rightarrow> pick_state \<Rightarrow> pick_state option" where
  "handleMove sc hits st =
     (let ((hover, st1), intersects) = intersect sc hits (move_hit sc) (False, st);
          st2 = (if hover
                 then (if cursor st1 \<noteq> ''pointer'' then st1\<lparr>cursor := ''pointer''\<rparr> else st1)
                 else (if cursor st1 \<noteq> ''default'' then st1\<lparr>cursor := ''default''\<rparr> else st1))
      in forEach (unhover_one sc intersects) (map snd (hovered st2)) st2)"

text \<open>
  One \<open>mousemove\<close> event, lines 269-299.  The effect that declares \<open>hovered\<close> and
  registers \<open>handleMove\<close> has no dependency list, so it runs again after every render
  of \<open>Canvas\<close>, its clean-up (which removes the listener) first: each run declares a
  new, empty table (line 270) and registers a new closure over that table and over the
  cursor of that render.  \<open>cursor\<close> is component state (line 216): \<open>setCursor\<close> with
  another value makes \<open>Canvas\<close> render again.  So the listener that handles a frame
  works on its own table to the end of the frame, and when it has changed the cursor the
  next frame is handled by a new listener, on an empty table.
\<close>

definition mousemove :: "scene \<Rightarrow> hit list \<Rightarrow> pick_state \<Rightarrow> pick_state option" where
  "mousemove sc hits st =
     (case handleMove sc hits st of
        None \<Rightarrow> None
      | Some st' \<Rightarrow> Some (if cursor st' \<noteq> cursor st then st'\<lparr>hovered := []\<rparr> else st'))"

text \<open>A sequence of pointer-move frames, each given by its hit list.\<close>

definition moves :: "scene \<Rightarrow> hit list list \<Rightarrow> pick_state \<Rightarrow> pick_state option" where
  "moves sc frames st = forEach (mousemove sc) frames st"

text \<open>
  The state after the first render: \<open>useState('default')\<close>, an empty table, no
  handler called yet.
\<close>

definition mounted :: pick_state where
  "mounted = \<lparr>hovered = [], cursor = ''default'', calls = []\<rparr>"





text \<open>
  A concrete scene: object 5 (uuid A) has hover, unhover and click handlers, object 7
  (uuid B) a click handler only, every other object has no handler table.
\<close>

definition sceneA :: scene where
  "sceneA = (\<lambda>ob. if ob = 5 then \<lparr>uuid = ''A'', handlers = Some [(''hover'', 10), (''unhover'', 11), (''click'', 12)]\<rparr>
          else if ob = 7 then \<lparr>uuid = ''B'', handlers = Some [(''click'', 20)]\<rparr>
          else \<lparr>uuid = ''C'', handlers = None\<rparr>)"


section \<open>JavaScript values and the object store\<close>

text \<open>
  The reconciliation adapter and \<open>applyProps\<close> work on mutable objects that are
  shared by reference, so the model has an explicit store: an address is an index into
  the list of allocated objects, allocation appends.

  A value is a primitive, a function (known by its identity only) or a reference.
  Numbers are compared with \<open>===\<close> and tested for truthiness, nothing else: they are
  integers, plus \<open>NaN\<close>, the one number that is not \<open>===\<close> to itself.
\<close>

type_synonym addr = nat

datatype val =
    VUndef
  | VNull
  | VBool bool
  | VNum int
  | VNaN
  | VStr string
  | VFun fn_id
  | VRef addr

text \<open>
  An object has the name of its constructor (\<open>constructor.name\<close>), its properties in
  insertion order, and, when it is an array, its elements.  The members an object inherits
  from its prototype (\<open>isObject3D\<close>, \<open>set\<close>, \<open>copy\<close>) are listed among its
  properties: the code reads them like own properties and never enumerates the keys of an
  instance.
\<close>

record obj =
  cls :: string
  members :: "(string \<times> val) list"
  elems :: "val list option"

text \<open>
  What leaves this code: a call of a function value (a handler, or a method of a library
  object) with its receiver and arguments, a construction \<open>new THREE[name](...args)\<close>
  with the address of the new object, and \<open>dispatchEvent\<close>.  The store records that
  the call was made; what the callee does to the store is not part of the model.
\<close>

datatype call =
    Invoke fn_id val "val list"
  | Construct string "val list" addr
  | Dispatch val string

record store =
  heap :: "obj list"
  trace :: "call list"

text \<open>
  The exceptions of the program, and \<open>Unmodelled\<close>: the run has left what the model
  describes (a conversion of an object to a property key).
\<close>

datatype error = TypeError | RangeError | Unmodelled

text \<open>A statement or expression ends normally with a value, or throws; both keep the store.\<close>

datatype 'a outcome = Ok 'a store | Raise error store

type_synonym props = "(string \<times> val) list"

text \<open>
  A props object is the list of its entries in enumeration order; \<open>props[key]\<close> is
  \<open>undefined\<close> for a missing key.
\<close>

definition lookup :: "props \<Rightarrow> string \<Rightarrow> val" where
  "lookup ps key = (case map_of ps key of None \<Rightarrow> VUndef | Some v \<Rightarrow> v)"

fun truthy :: "val \<Rightarrow> bool" where
  "truthy VUndef = False"
| "truthy VNull = False"
| "truthy (VBool b) = b"
| "truthy (VNum n) = (n \<noteq> 0)"
| "truthy VNaN = False"
| "truthy (VStr s) = (s \<noteq> [])"
| "truthy (VFun f) = True"
| "truthy (VRef a) = True"

text \<open>\<open>a === b\<close>\<close>

definition strict_eq :: "val \<Rightarrow> val \<Rightarrow> bool" where
  "strict_eq a b \<longleftrightarrow> a = b \<and> a \<noteq> VNaN"

text \<open>\<open>typeof v === 'function'\<close>\<close>

fun is_function :: "val \<Rightarrow> bool" where
  "is_function (VFun f) = True"
| "is_function v = False"

definition obj_at :: "store \<Rightarrow> addr \<Rightarrow> obj option" where
  "obj_at st a = (if a < length (heap st) then Some (heap st ! a) else None)"

definition alloc :: "obj \<Rightarrow> store \<Rightarrow> addr \<times> store" where
  "alloc ob st = (length (heap st), st\<lparr>heap := heap st @ [ob]\<rparr>)"

subsection \<open>Strings\<close>

text \<open>Strings are ASCII; case conversion touches the letters A-Z and a-z only.\<close>

definition to_lower :: "char \<Rightarrow> char" where
  "to_lower c = (let n = (of_char c :: nat) in if 65 \<le> n \<and> n \<le> 90 then char_of (n + 32) else c)"

definition to_upper :: "char \<Rightarrow> char" where
  "to_upper c = (let n = (of_char c :: nat) in if 97 \<le> n \<and> n \<le> 122 then char_of (n - 32) else c)"

text \<open>lodash \<open>upperFirst\<close>\<close>

definition upperFirst :: "string \<Rightarrow> string" where
  "upperFirst s = (case s of [] \<Rightarrow> [] | c # cs \<Rightarrow> to_upper c # cs)"

text \<open>\<open>key.startsWith(p)\<close>\<close>

definition startsWith :: "string \<Rightarrow> string \<Rightarrow> bool" where
  "startsWith key p \<longleftrightarrow> take (length p) key = p"

text \<open>\<open>key.split('-')\<close>\<close>

fun split_dash :: "string \<Rightarrow> string list" where
  "split_dash [] = [[]]"
| "split_dash (c # cs) =
     (if c = CHR ''-'' then [] # split_dash cs
      else (case split_dash cs of [] \<Rightarrow> [[c]] | w # ws \<Rightarrow> (c # w) # ws))"

text \<open>
  An array index as a property key: the decimal numeral of a natural number, without
  leading zeros.
\<close>

definition is_digit :: "char \<Rightarrow> bool" where
  "is_digit c \<longleftrightarrow> 48 \<le> (of_char c :: nat) \<and> (of_char c :: nat) \<le> 57"

definition index_key :: "string \<Rightarrow> nat option" where
  "index_key s =
     (if s = [] \<or> \<not> list_all is_digit s \<or> (1 < length s \<and> hd s = CHR ''0'') then None
      else Some (foldl (\<lambda>n c. 10 * n + ((of_char c :: nat) - 48)) 0 s))"

subsection \<open>Reading and writing properties\<close>

text \<open>
  \<open>v[key]\<close>.  Reading a property of \<open>undefined\<close> or \<open>null\<close> throws a TypeError.
  A property of a number, string, boolean or function reads as \<open>undefined\<close>: the
  built-in members of the primitive wrappers are not modelled.  A reference to an address
  that was never allocated does not arise; it reads as a TypeError.
\<close>

definition read_obj :: "obj \<Rightarrow> string \<Rightarrow> val" where
  "read_obj ob key =
     (case elems ob of
        None \<Rightarrow> lookup (members ob) key
      | Some xs \<Rightarrow>
          (case index_key key of
             Some i \<Rightarrow> (if i < length xs then xs ! i else VUndef)
           | None \<Rightarrow>
               if key = ''length'' then VNum (int (length xs))
               else lookup (members ob) key))"

definition get_prop :: "store \<Rightarrow> val \<Rightarrow> string \<Rightarrow> error + val" where
  "get_prop st v key =
     (case v of
        VUndef \<Rightarrow> Inl TypeError
      | VNull \<Rightarrow> Inl TypeError
      | VRef a \<Rightarrow>
          (case obj_at st a of
             None \<Rightarrow> Inl TypeError
           | Some ob \<Rightarrow> Inr (read_obj ob key))
      | _ \<Rightarrow> Inr VUndef)"

text \<open>
  \<open>root[key] = value\<close>.  The module is strict-mode code: assigning to a property of a
  primitive throws, like assigning to a property of \<open>undefined\<close>.  An array grows when
  an index past its end is written, and \<open>length\<close> truncates or pads it.
\<close>

definition write_obj :: "obj \<Rightarrow> string \<Rightarrow> val \<Rightarrow> error + obj" where
  "write_obj ob key value =
     (case elems ob of
        None \<Rightarrow> Inr (ob\<lparr>members := AList.update key value (members ob)\<rparr>)
      | Some xs \<Rightarrow>
          (case index_key key of
             Some i \<Rightarrow>
               Inr (ob\<lparr>elems := Some (if i < length xs then xs[i := value]
                                        else xs @ replicate (i - length xs) VUndef @ [value])\<rparr>)
           | None \<Rightarrow>
               if key = ''length'' then
                 (case value of
                    VNum n \<Rightarrow>
                      if 0 \<le> n
                      then Inr (ob\<lparr>elems := Some (take (nat n) xs @ replicate (nat n - length xs) VUndef)\<rparr>)
                      else Inl RangeError
                  | _ \<Rightarrow> Inl RangeError)
               else Inr (ob\<lparr>members := AList.update key value (members ob)\<rparr>)))"

definition set_prop :: "val \<Rightarrow> string \<Rightarrow> val \<Rightarrow> store \<Rightarrow> unit outcome" where
  "set_prop root key value st =
     (case root of
        VRef a \<Rightarrow>
          (case obj_at st a of
             None \<Rightarrow> Raise TypeError st
           | Some ob \<Rightarrow>
               (case write_obj ob key value of
                  Inl e \<Rightarrow> Raise e st
                | Inr ob' \<Rightarrow> Ok () (st\<lparr>heap := (heap st)[a := ob']\<rparr>)))
      | _ \<Rightarrow> Raise TypeError st)"

text \<open>\<open>entries.reduce((acc, key) => acc[key], instance)\<close>\<close>

fun resolve :: "store \<Rightarrow> val \<Rightarrow> string list \<Rightarrow> error + val" where
  "resolve st acc [] = Inr acc"
| "resolve st acc (key # keys) =
     (case get_prop st acc key of Inl e \<Rightarrow> Inl e | Inr v \<Rightarrow> resolve st v keys)"

text \<open>\<open>v.constructor.name\<close>\<close>

definition constructor_name :: "store \<Rightarrow> val \<Rightarrow> error + string" where
  "constructor_name st v =
     (case v of
        VUndef \<Rightarrow> Inl TypeError
      | VNull \<Rightarrow> Inl TypeError
      | VBool b \<Rightarrow> Inr ''Boolean''
      | VNum n \<Rightarrow> Inr ''Number''
      | VNaN \<Rightarrow> Inr ''Number''
      | VStr s \<Rightarrow> Inr ''String''
      | VFun f \<Rightarrow> Inr ''Function''
      | VRef a \<Rightarrow> (case obj_at st a of None \<Rightarrow> Inl TypeError | Some ob \<Rightarrow> Inr (cls ob)))"

text \<open>\<open>Array.isArray(v)\<close>\<close>

definition isArray :: "store \<Rightarrow> val \<Rightarrow> bool" where
  "isArray st v =
     (case v of
        VRef a \<Rightarrow> (case obj_at st a of None \<Rightarrow> False | Some ob \<Rightarrow> elems ob \<noteq> None)
      | _ \<Rightarrow> False)"

text \<open>
  The elements \<open>...v\<close> spreads: those of an array, the characters of a string; anything
  else is not iterable.
\<close>

definition spread :: "store \<Rightarrow> val \<Rightarrow> error + val list" where
  "spread st v =
     (case v of
        VRef a \<Rightarrow>
          (case obj_at st a of
             None \<Rightarrow> Inl TypeError
           | Some ob \<Rightarrow> (case elems ob of None \<Rightarrow> Inl TypeError | Some xs \<Rightarrow> Inr xs))
      | VStr s \<Rightarrow> Inr (map (\<lambda>c. VStr [c]) s)
      | _ \<Rightarrow> Inl TypeError)"

text \<open>
  \<open>f.call(this, ...args)\<close> for a value \<open>f\<close>: calling what is not a function throws;
  a call of a function is recorded.
\<close>

definition invoke :: "val \<Rightarrow> val \<Rightarrow> val list \<Rightarrow> store \<Rightarrow> unit outcome" where
  "invoke f this args st =
     (case f of
        VFun g \<Rightarrow> Ok () (st\<lparr>trace := trace st @ [Invoke g this args]\<rparr>)
      | _ \<Rightarrow> Raise TypeError st)"

text \<open>\<open>recv.name(...args)\<close>\<close>

definition call_method :: "val \<Rightarrow> string \<Rightarrow> val list \<Rightarrow> store \<Rightarrow> unit outcome" where
  "call_method recv name args st =
     (case get_prop st recv name of
        Inl e \<Rightarrow> Raise e st
      | Inr f \<Rightarrow> invoke f recv args st)"

text \<open>A \<open>forEach\<close> over statements that may throw: the first exception ends the loop.\<close>

fun for_each :: "('a \<Rightarrow> store \<Rightarrow> unit outcome) \<Rightarrow> 'a list \<Rightarrow> store \<Rightarrow> unit outcome" where
  "for_each f [] st = Ok () st"
| "for_each f (x # xs) st =
     (case f x st of Raise e st' \<Rightarrow> Raise e st' | Ok u st' \<Rightarrow> for_each f xs st')"

section \<open>The prop application engine (src/index.js lines 23-62)\<close>

text \<open>lodash \<open>omit(props, keys)\<close> on keys that are own keys of \<open>props\<close>.\<close>

definition omit :: "props \<Rightarrow> string list \<Rightarrow> props" where
  "omit ps keys = filter (\<lambda>(k, v). k \<notin> set keys) ps"

text \<open>
  Lines 32-41: the root, the key and the target of one entry.  For a key with a dash the
  target is the end of the path from the instance; when that target is truthy and has no
  \<open>set\<close>, the root becomes the end of the path without its last segment and the key
  becomes the last segment.
\<close>

definition locate :: "store \<Rightarrow> val \<Rightarrow> string \<Rightarrow> error + (val \<times> string \<times> val)" where
  "locate st instance key =
     (case get_prop st instance key of
        Inl e \<Rightarrow> Inl e
      | Inr target0 \<Rightarrow>
          if CHR ''-'' \<in> set key then
            (let entries = split_dash key in
             case resolve st instance entries of
               Inl e \<Rightarrow> Inl e
             | Inr target \<Rightarrow>
                 if truthy target then
                   (case get_prop st target ''set'' of
                      Inl e \<Rightarrow> Inl e
                    | Inr s \<Rightarrow>
                        if \<not> truthy s then
                          (case resolve st instance (butlast entries) of
                             Inl e \<Rightarrow> Inl e
                           | Inr root \<Rightarrow> Inr (root, last entries, target))
                        else Inr (instance, key, target))
                 else Inr (instance, key, target))
          else Inr (instance, key, target0))"

text \<open>Lines 42-50: copy, set or plain assignment.\<close>

definition assign :: "val \<Rightarrow> string \<Rightarrow> val \<Rightarrow> val \<Rightarrow> store \<Rightarrow> unit outcome" where
  "assign root key target value st =
     (if truthy target then
        (case get_prop st target ''set'' of
           Inl e \<Rightarrow> Raise e st
         | Inr s \<Rightarrow>
             if truthy s then
               (case constructor_name st target of
                  Inl e \<Rightarrow> Raise e st
                | Inr tn \<Rightarrow>
                    (case constructor_name st value of
                       Inl e \<Rightarrow> Raise e st
                     | Inr vn \<Rightarrow>
                         if tn = vn then call_method target ''copy'' [value] st
                         else if isArray st value then
                           (case spread st value of
                              Inl e \<Rightarrow> Raise e st
                            | Inr xs \<Rightarrow> call_method target ''set'' xs st)
                         else call_method target ''set'' [value] st))
             else set_prop root key value st)
      else set_prop root key value st)"

text \<open>The body of the \<open>forEach\<close> of lines 29-51.\<close>

definition apply_entry :: "val \<Rightarrow> string \<times> val \<Rightarrow> store \<Rightarrow> unit outcome" where
  "apply_entry instance = (\<lambda>(key, value) st.
     case locate st instance key of
       Inl e \<Rightarrow> Raise e st
     | Inr (root, key', target) \<Rightarrow> assign root key' target value st)"

text \<open>\<open>key.charAt(2).toLowerCase() + key.substr(3)\<close>\<close>

definition handler_name :: "string \<Rightarrow> string" where
  "handler_name key = map to_lower (take 1 (drop 2 key)) @ drop 3 key"

text \<open>The table \<open>handlers.reduce(...)\<close> builds, lines 54-57.\<close>

definition handler_table :: "string list \<Rightarrow> props \<Rightarrow> props" where
  "handler_table hs newProps =
     foldl (\<lambda>acc key. AList.update (handler_name key) (lookup newProps key) acc) [] hs"

text \<open>
  Lines 54-59: the table becomes a new object, \<open>instance.__handlers\<close> is set to it, and
  its \<open>update\<close> entry, when truthy, is called on the instance.
\<close>

definition install_handlers :: "val \<Rightarrow> string list \<Rightarrow> props \<Rightarrow> store \<Rightarrow> unit outcome" where
  "install_handlers instance hs newProps st =
     (let (a, st1) = alloc \<lparr>cls = ''Object'', members = handler_table hs newProps, elems = None\<rparr> st
      in case set_prop instance ''__handlers'' (VRef a) st1 of
           Raise e st2 \<Rightarrow> Raise e st2
         | Ok u st2 \<Rightarrow>
             (case get_prop st2 instance ''__handlers'' of
                Inl e \<Rightarrow> Raise e st2
              | Inr h \<Rightarrow>
                  (case get_prop st2 h ''update'' of
                     Inl e \<Rightarrow> Raise e st2
                   | Inr upd \<Rightarrow>
                       if truthy upd then invoke upd h [instance] st2 else Ok () st2)))"

definition sameProps :: "props \<Rightarrow> props \<Rightarrow> string list" where
  "sameProps newProps oldProps =
     filter (\<lambda>key. strict_eq (lookup newProps key) (lookup oldProps key)) (map fst newProps)"

definition handler_keys :: "props \<Rightarrow> string list" where
  "handler_keys newProps =
     filter (\<lambda>key. is_function (lookup newProps key) \<and> startsWith key ''on'') (map fst newProps)"

definition filteredProps :: "props \<Rightarrow> props \<Rightarrow> props" where
  "filteredProps newProps oldProps =
     omit newProps (sameProps newProps oldProps @ handler_keys newProps @ [''children'', ''key'', ''ref''])"

definition applyProps :: "val \<Rightarrow> props \<Rightarrow> props \<Rightarrow> store \<Rightarrow> unit outcome" where
  "applyProps instance newProps oldProps st =
     (if 0 < length (filteredProps newProps oldProps) then
        (case for_each (apply_entry instance) (filteredProps newProps oldProps) st of
           Raise e st1 \<Rightarrow> Raise e st1
         | Ok u st1 \<Rightarrow>
             if 0 < length (handler_keys newProps)
             then install_handlers instance (handler_keys newProps) newProps st1
             else Ok () st1)
      else Ok () st)"

section \<open>The reconciliation adapter (src/index.js lines 64-140)\<close>

text \<open>Sequencing: the second statement runs in the store the first one left, unless it threw.\<close>

definition bind :: "'a outcome \<Rightarrow> ('a \<Rightarrow> store \<Rightarrow> 'b outcome) \<Rightarrow> 'b outcome" where
  "bind m f = (case m of Raise e st \<Rightarrow> Raise e st | Ok x st \<Rightarrow> f x st)"

text \<open>An expression that reads the store: its value, or its exception, in the same store.\<close>

definition rd :: "error + 'a \<Rightarrow> store \<Rightarrow> 'a outcome" where
  "rd r st = (case r of Inl e \<Rightarrow> Raise e st | Inr x \<Rightarrow> Ok x st)"

subsection \<open>The scene-graph library\<close>

text \<open>
  The registry \<open>THREE\<close> maps a class name to its constructor, if it exports one.  A
  constructor allocates: from the arguments and the address the new object will get, it
  gives the new object and the auxiliary objects allocated with it (its children array,
  its vectors), which take the addresses that follow.  It writes to no existing object.
\<close>

type_synonym three = "string \<Rightarrow> (val list \<Rightarrow> addr \<Rightarrow> obj \<times> obj list) option"

text \<open>\<open>new THREE[name](...args)\<close>; \<open>THREE[name]\<close> may be undefined.\<close>

definition construct :: "three \<Rightarrow> string \<Rightarrow> val list \<Rightarrow> store \<Rightarrow> val outcome" where
  "construct three name args st =
     (case three name of
        None \<Rightarrow> Raise TypeError st
      | Some mk \<Rightarrow>
          (let base = length (heap st); (ob, aux) = mk args base
           in Ok (VRef base) (st\<lparr>heap := heap st @ ob # aux,
                                   trace := trace st @ [Construct name args base]\<rparr>)))"

text \<open>The elements of a value that must be an array (\<open>indexOf\<close>, \<open>slice\<close>, \<open>some\<close>).\<close>

definition array_elems :: "store \<Rightarrow> val \<Rightarrow> error + val list" where
  "array_elems st v =
     (case v of
        VRef a \<Rightarrow>
          (case obj_at st a of
             None \<Rightarrow> Inl TypeError
           | Some ob \<Rightarrow> (case elems ob of None \<Rightarrow> Inl TypeError | Some xs \<Rightarrow> Inr xs))
      | _ \<Rightarrow> Inl TypeError)"

text \<open>\<open>xs.indexOf(v)\<close>: the first position that is \<open>===\<close> to \<open>v\<close>, or -1.\<close>

fun indexOf :: "val list \<Rightarrow> val \<Rightarrow> int" where
  "indexOf [] v = -1"
| "indexOf (x # xs) v =
     (if strict_eq x v then 0 else (let i = indexOf xs v in if i < 0 then -1 else i + 1))"

text \<open>\<open>xs.slice(0, i)\<close> and \<open>xs.slice(i)\<close>; a negative index counts from the end.\<close>

definition clamp_index :: "nat \<Rightarrow> int \<Rightarrow> nat" where
  "clamp_index n i = (if i < 0 then nat (max (int n + i) 0) else min (nat i) n)"

definition slice_to :: "val list \<Rightarrow> int \<Rightarrow> val list" where
  "slice_to xs i = take (clamp_index (length xs) i) xs"

definition slice_from :: "val list \<Rightarrow> int \<Rightarrow> val list" where
  "slice_from xs i = drop (clamp_index (length xs) i) xs"

text \<open>\<open>object.dispatchEvent({ type })\<close>: recorded.\<close>

definition dispatchEvent :: "val \<Rightarrow> string \<Rightarrow> store \<Rightarrow> unit outcome" where
  "dispatchEvent object type st = Ok () (st\<lparr>trace := trace st @ [Dispatch object type]\<rparr>)"

text \<open>
  Modelled from the spec: the library's \<open>remove\<close> and \<open>add\<close> on a structural node
  (section 6: a mutable ordered child list on structural nodes with add/remove
  operations; section 3: membership in at most one parent at a time).  \<open>remove\<close> looks
  the object up in the child list and, when it is there, clears its parent, announces
  the removal and takes it out of the list.  \<open>add\<close> ignores the node itself and
  anything that is not a structural node; it detaches the object from the parent it has,
  sets its parent, announces the addition and appends it to the child list.  Only a
  structural node has these methods.
\<close>

definition remove_nth :: "nat \<Rightarrow> 'a list \<Rightarrow> 'a list" where
  "remove_nth i xs = take i xs @ drop (Suc i) xs"

definition three_remove :: "val \<Rightarrow> val \<Rightarrow> store \<Rightarrow> unit outcome" where
  "three_remove this object st =
     bind (rd (get_prop st this ''isObject3D'') st) (\<lambda>flag st.
       if \<not> truthy flag then Raise TypeError st
       else
         bind (rd (get_prop st this ''children'') st) (\<lambda>ch st.
         bind (rd (array_elems st ch) st) (\<lambda>xs st.
           if indexOf xs object < 0 then Ok () st
           else
             bind (set_prop object ''parent'' VNull st) (\<lambda>u st.
             bind (dispatchEvent object ''removed'' st) (\<lambda>u st.
             bind (rd (get_prop st this ''children'') st) (\<lambda>ch st.
             bind (rd (array_elems st ch) st) (\<lambda>ys st.
               case ch of
                 VRef c \<Rightarrow>
                   (case obj_at st c of
                      None \<Rightarrow> Raise TypeError st
                    | Some ob \<Rightarrow>
                        Ok () (st\<lparr>heap := (heap st)[c := ob\<lparr>elems := Some (remove_nth (nat (indexOf xs object)) ys)\<rparr>]\<rparr>))
               | _ \<Rightarrow> Raise TypeError st)))))))"

definition three_add :: "val \<Rightarrow> val \<Rightarrow> store \<Rightarrow> unit outcome" where
  "three_add this object st =
     bind (rd (get_prop st this ''isObject3D'') st) (\<lambda>flag st.
       if \<not> truthy flag then Raise TypeError st
       else if object = this then Ok () st
       else if \<not> truthy object then Ok () st
       else
         bind (rd (get_prop st object ''isObject3D'') st) (\<lambda>oflag st.
           if \<not> truthy oflag then Ok () st
           else
             bind (rd (get_prop st object ''parent'') st) (\<lambda>p st.
             bind (if p = VNull then Ok () st else three_remove p object st) (\<lambda>u st.
             bind (set_prop object ''parent'' this st) (\<lambda>u st.
             bind (dispatchEvent object ''added'' st) (\<lambda>u st.
             bind (rd (get_prop st this ''children'') st) (\<lambda>ch st.
               case ch of
                 VRef c \<Rightarrow>
                   (case obj_at st c of
                      None \<Rightarrow> Raise TypeError st
                    | Some ob \<Rightarrow>
                        (case elems ob of
                           None \<Rightarrow> Raise TypeError st
                         | Some ys \<Rightarrow> Ok () (st\<lparr>heap := (heap st)[c := ob\<lparr>elems := Some (ys @ [object])\<rparr>]\<rparr>)))
               | _ \<Rightarrow> Raise TypeError st)))))))"

subsection \<open>createInstance, lines 64-70\<close>

text \<open>
  The host type is a string.  \<open>{ args = [], ...props }\<close>: the default applies when
  \<open>args\<close> is undefined, and \<open>props\<close> is everything but \<open>args\<close>.
\<close>

definition spread_args :: "store \<Rightarrow> val \<Rightarrow> error + val list" where
  "spread_args st args = (if args = VUndef then Inr [] else spread st args)"

definition createInstance :: "three \<Rightarrow> string \<Rightarrow> props \<Rightarrow> store \<Rightarrow> val outcome" where
  "createInstance three type allProps st =
     (let args = lookup allProps ''args'';
          props = omit allProps [''args''];
          name = upperFirst type
      in
      bind (if type = ''primitive'' then Ok (lookup props ''object'') st
            else bind (rd (spread_args st args) st) (\<lambda>argv st. construct three name argv st))
        (\<lambda>instance st.
      bind (applyProps instance props [] st) (\<lambda>u st.
      bind (rd (get_prop st instance ''isObject3D'') st) (\<lambda>flag st.
        if \<not> truthy flag
        then (let (a, st') = alloc \<lparr>cls = ''Object'', members = [(''current'', instance)], elems = None\<rparr> st
              in Ok (VRef a) st')
        else Ok instance st))))"

subsection \<open>appendChild and removeChild, lines 72-89\<close>

text \<open>
  The computed key \<open>[child.current.name]\<close>: a string is its own key.  A truthy name that
  is not a string would be converted to one; the model does not follow such a run, it
  ends in \<open>Unmodelled\<close>, which is not an exception of the program.
\<close>

definition appendChild :: "val \<Rightarrow> val \<Rightarrow> store \<Rightarrow> unit outcome" where
  "appendChild parentInstance child st =
     (if truthy child then
        bind (rd (get_prop st child ''isObject3D'') st) (\<lambda>flag st.
          if truthy flag then three_add parentInstance child st
          else
            bind (rd (get_prop st child ''current'') st) (\<lambda>cur st.
            bind (rd (get_prop st cur ''name'') st) (\<lambda>name st.
              if truthy name then
                bind (set_prop child ''parent'' parentInstance st) (\<lambda>u st.
                bind (rd (get_prop st parentInstance ''isObject3D'') st) (\<lambda>pflag st.
                bind (if truthy pflag then Ok parentInstance st
                      else rd (get_prop st parentInstance ''current'') st) (\<lambda>target st.
                bind (rd (get_prop st child ''current'') st) (\<lambda>cur1 st.
                bind (rd (get_prop st cur1 ''name'') st) (\<lambda>name1 st.
                bind (rd (get_prop st child ''current'') st) (\<lambda>cur2 st.
                  case name1 of
                    VStr key \<Rightarrow> applyProps target [(key, cur2)] [] st
                  | _ \<Rightarrow> Raise Unmodelled st))))))
              else Ok () st)))
      else Ok () st)"

definition removeChild :: "val \<Rightarrow> val \<Rightarrow> store \<Rightarrow> unit outcome" where
  "removeChild parentInstance child st =
     (if truthy child then
        bind (rd (get_prop st child ''isObject3D'') st) (\<lambda>flag st.
          if truthy flag then three_remove parentInstance child st
          else set_prop child ''parent'' VUndef st)
      else Ok () st)"

subsection \<open>insertBefore, lines 103-117\<close>

definition insertBefore :: "val \<Rightarrow> val \<Rightarrow> val \<Rightarrow> store \<Rightarrow> unit outcome" where
  "insertBefore parentInstance child beforeChild st =
     (if truthy child then
        bind (rd (get_prop st child ''isObject3D'') st) (\<lambda>flag st.
          if truthy flag then
            bind (set_prop child ''parent'' parentInstance st) (\<lambda>u st.
            bind (dispatchEvent child ''added'' st) (\<lambda>u st.
            bind (rd (get_prop st parentInstance ''children'') st) (\<lambda>ch st.
            bind (rd (array_elems st ch) st) (\<lambda>xs st.
              (let index = indexOf xs beforeChild;
                   (a, st') = alloc \<lparr>cls = ''Array'', members = [],
                                     elems = Some (slice_to xs index @ [child] @ slice_from xs index)\<rparr> st
               in set_prop parentInstance ''children'' (VRef a) st')))))
          else set_prop child ''parent'' parentInstance st)
      else Ok () st)"

subsection \<open>commitUpdate, lines 118-140\<close>

text \<open>
  \<open>v[index]\<close> for a numeric index: an element of an array, a character of a string, the
  property under the decimal key of another object.
\<close>

fun dec :: "nat \<Rightarrow> string" where
  "dec n = (if n < 10 then [char_of (48 + n)] else dec (n div 10) @ [char_of (48 + n mod 10)])"

definition index_read :: "store \<Rightarrow> val \<Rightarrow> nat \<Rightarrow> error + val" where
  "index_read st v i =
     (case v of
        VStr s \<Rightarrow> Inr (if i < length s then VStr [s ! i] else VUndef)
      | _ \<Rightarrow> get_prop st v (dec i))"

text \<open>
  \<open>argsNew.some((value, index) => value !== argsOld[index])\<close>, from position \<open>i\<close> on:
  \<open>old i\<close> is \<open>argsOld[i]\<close>, read when the callback reaches position \<open>i\<close>.
\<close>

fun some_differs :: "(nat \<Rightarrow> error + val) \<Rightarrow> val list \<Rightarrow> nat \<Rightarrow> error + bool" where
  "some_differs old [] i = Inr False"
| "some_differs old (value # rest) i =
     (case old i of
        Inl e \<Rightarrow> Inl e
      | Inr ov \<Rightarrow> if \<not> strict_eq value ov then Inr True else some_differs old rest (Suc i))"

text \<open>
  \<open>const { args: argsNew = [], ...restNew } = newProps\<close> and the test of line 127.
  \<open>some\<close> is a method of arrays.
\<close>

definition args_changed :: "store \<Rightarrow> props \<Rightarrow> props \<Rightarrow> error + bool" where
  "args_changed st newProps oldProps =
     (let argsNew = lookup newProps ''args''; argsOld = lookup oldProps ''args''
      in case (if argsNew = VUndef then Inr [] else array_elems st argsNew) of
           Inl e \<Rightarrow> Inl e
         | Inr xs \<Rightarrow>
             some_differs (\<lambda>i. if argsOld = VUndef then Inr VUndef else index_read st argsOld i) xs 0)"

definition commitUpdate :: "three \<Rightarrow> val \<Rightarrow> props \<Rightarrow> props \<Rightarrow> store \<Rightarrow> unit outcome" where
  "commitUpdate three instance oldProps newProps st =
     bind (rd (get_prop st instance ''isObject3D'') st) (\<lambda>flag st.
       if truthy flag then applyProps instance newProps oldProps st
       else
         bind (rd (get_prop st instance ''parent'') st) (\<lambda>parent st.
         bind (rd (args_changed st newProps oldProps) st) (\<lambda>changed st.
           if changed then
             bind (rd (get_prop st instance ''current'') st) (\<lambda>cur st.
             bind (rd (get_prop st cur ''type'') st) (\<lambda>ty st.
             bind (case ty of VStr type \<Rightarrow> createInstance three type newProps st
                   | _ \<Rightarrow> Raise TypeError st) (\<lambda>newInstance st.
             bind (removeChild parent instance st) (\<lambda>u st.
             bind (appendChild parent newInstance st) (\<lambda>u st.
             bind (rd (get_prop st newInstance ''current'') st) (\<lambda>c st.
             bind (set_prop instance ''current'' c st) (\<lambda>u st.
             bind (rd (get_prop st newInstance ''parent'') st) (\<lambda>p st.
               set_prop instance ''parent'' p st))))))))
           else
             bind (rd (get_prop st instance ''current'') st) (\<lambda>cur st.
               applyProps cur (omit newProps [''args'']) (omit oldProps [''args'']) st))))"

section \<open>Auxiliary notions and concrete stores\<close>

text \<open>
  A key that is neither an array index nor \<open>length\<close>: writing it stores a property,
  on an array as on any other object.
\<close>

definition plain_key :: "string \<Rightarrow> bool" where
  "plain_key k \<longleftrightarrow> index_key k = None \<and> k \<noteq> ''length''"

text \<open>The store an outcome leaves, whether it returned or threw.\<close>

fun final :: "'a outcome \<Rightarrow> store" where
  "final (Ok x st) = st"
| "final (Raise e st) = st"

text \<open>A trace entry that is a call of a function value.\<close>

fun is_Invoke :: "call \<Rightarrow> bool" where
  "is_Invoke (Invoke f t args) = True"
| "is_Invoke c = False"


text \<open>
  What every statement of \<open>applyProps\<close> does to the store, whatever the keys: from
  \<open>st\<close> to \<open>st'\<close> no object is removed, and the trace is extended by calls of
  function values only.
\<close>

definition grown :: "store \<Rightarrow> store \<Rightarrow> bool" where
  "grown st st' \<longleftrightarrow>
     length (heap st) \<le> length (heap st')
     \<and> (\<exists>evs. trace st' = trace st @ evs \<and> list_all is_Invoke evs)"



text \<open>
  A structural node as the library builds it, with its child list at the given address,
  and an array.
\<close>

definition mesh_obj :: "addr \<Rightarrow> obj" where
  "mesh_obj ch = \<lparr>cls = ''Mesh'', members = [(''isObject3D'', VBool True), (''type'', VStr ''Mesh''),
       (''parent'', VNull), (''children'', VRef ch)], elems = None\<rparr>"

definition array_obj :: "val list \<Rightarrow> obj" where
  "array_obj xs = \<lparr>cls = ''Array'', members = [], elems = Some xs\<rparr>"

text \<open>
  A scene: the node at address 0 has the children at addresses 2, 4 and 6 (its child list
  is the array at address 1); the node at address 8 has no parent.
\<close>

definition scene_store :: store where
  "scene_store = \<lparr>heap = [mesh_obj 1, array_obj [VRef 2, VRef 4, VRef 6],
      mesh_obj 3, array_obj [], mesh_obj 5, array_obj [], mesh_obj 7, array_obj [], mesh_obj 9, array_obj []], trace = []\<rparr>"

text \<open>The scene after \<open>visible = true\<close> was assigned on the node at address 0.\<close>

definition scene_store_visible :: store where
  "scene_store_visible =
     scene_store\<lparr>heap := (heap scene_store)
       [0 := (mesh_obj 1)\<lparr>members := members (mesh_obj 1) @ [(''visible'', VBool True)]\<rparr>]\<rparr>"

text \<open>
  A node at address 0, a geometry without a name at address 2, and its placeholder at
  address 3.
\<close>

definition leaf_store :: store where
  "leaf_store = \<lparr>heap = [mesh_obj 1, array_obj [],
      \<lparr>cls = ''BoxGeometry'', members = [(''type'', VStr ''BoxGeometry''), (''name'', VStr '''')], elems = None\<rparr>,
      \<lparr>cls = ''Object'', members = [(''current'', VRef 2)], elems = None\<rparr>], trace = []\<rparr>"








section \<open>Sequences of adapter operations\<close>

text \<open>
  The reconciler drives the adapter by a sequence of calls.  A run executes them in
  order; a call that throws leaves the store as it was at the throw, and the run goes on.
\<close>

datatype adapter_op =
    CreateInstance string props
  | AppendChild val val
  | RemoveChild val val
  | InsertBefore val val val
  | CommitUpdate val props props

definition exec :: "three \<Rightarrow> adapter_op \<Rightarrow> store \<Rightarrow> store" where
  "exec three op st =
     (case op of
        CreateInstance type props \<Rightarrow> final (createInstance three type props st)
      | AppendChild parent child \<Rightarrow> final (appendChild parent child st)
      | RemoveChild parent child \<Rightarrow> final (removeChild parent child st)
      | InsertBefore parent child beforeChild \<Rightarrow> final (insertBefore parent child beforeChild st)
      | CommitUpdate instance oldProps newProps \<Rightarrow> final (commitUpdate three instance oldProps newProps st))"

definition run :: "three \<Rightarrow> adapter_op list \<Rightarrow> store \<Rightarrow> store" where
  "run three ops st = fold (exec three) ops st"

text \<open>
  The code tells a structural node from anything else by the flag \<open>isObject3D\<close> (lines
  68, 74, 86, 105, 119); the structural child list of a node is the array under its
  field \<open>children\<close>.
\<close>

definition node :: "obj \<Rightarrow> bool" where
  "node ob \<longleftrightarrow> truthy (read_obj ob ''isObject3D'')"

definition kids :: "obj \<Rightarrow> val" where
  "kids ob = read_obj ob ''children''"



text \<open>
  \<open>applyProps\<close> writes a prop under the last segment of its dashed key, or under the
  whole key (lines 37-39, 50).  A key is safe when that field is not one of those the
  child lists are made of: the last segment is not an array index, not \<open>length\<close>, not
  \<open>isObject3D\<close>, and not \<open>children\<close> (the key \<open>children\<close> itself is never
  applied, line 27).  The name of a resource is used as a key by \<open>appendChild\<close>
  (line 78), so a name that is a string has to be a safe key.
\<close>

definition field_key :: "string \<Rightarrow> string" where
  "field_key k = last (split_dash k)"

definition safe_key :: "string \<Rightarrow> bool" where
  "safe_key k \<longleftrightarrow>
     plain_key (field_key k) \<and> field_key k \<noteq> ''isObject3D''
     \<and> (field_key k = ''children'' \<longrightarrow> k = ''children'')"

definition safe_name :: "val \<Rightarrow> bool" where
  "safe_name v \<longleftrightarrow> (case v of VStr s \<Rightarrow> safe_key s | _ \<Rightarrow> True)"

definition named :: "obj \<Rightarrow> bool" where
  "named ob \<longleftrightarrow> safe_name (read_obj ob ''name'')"






text \<open>
  A step is benign when it leaves the child lists alone: no object is removed, every
  object that existed keeps its flag, its \<open>children\<close> field and its elements (and a
  safe name stays safe), and a new object is not a structural node with a child list.
\<close>

definition similar :: "obj \<Rightarrow> obj \<Rightarrow> bool" where
  "similar ob ob' \<longleftrightarrow>
     node ob' = node ob \<and> kids ob' = kids ob \<and> elems ob' = elems ob \<and> (named ob \<longrightarrow> named ob')"

definition harmless :: "obj \<Rightarrow> bool" where
  "harmless ob \<longleftrightarrow> named ob \<and> (node ob \<longrightarrow> (case kids ob of VRef c \<Rightarrow> False | _ \<Rightarrow> True))"

definition benign :: "store \<Rightarrow> store \<Rightarrow> bool" where
  "benign st st' \<longleftrightarrow>
     length (heap st) \<le> length (heap st')
     \<and> (\<forall>b < length (heap st). similar (heap st ! b) (heap st' ! b))
     \<and> (\<forall>b < length (heap st'). length (heap st) \<le> b \<longrightarrow> harmless (heap st' ! b))"







section \<open>Properties of the subscription list\<close>

lemma unsubscribe_keeps_only: "set (unsubscribe fn subs) \<subseteq> {fn}"
  by (auto simp: unsubscribe_def)

text \<open>
  Claim C7 (the code at the failing input).  With two subscribers \<open>f = 1\<close> and
  \<open>g = 2\<close> registered in this order, the unsubscribe function of \<open>f\<close> leaves the
  list \<open>[f]\<close>: the callback that was to be removed stays, and the other subscriber
  is dropped.  The claim asks for \<open>[g]\<close>.
\<close>

theorem unsubscribe_drops_the_others:
  "unsubscribe 1 (subscribe 2 (subscribe 1 [])) = [1]"
  by (simp add: unsubscribe_def subscribe_def)

section \<open>Properties of pointer picking\<close>

subsection \<open>Click dispatch\<close>








subsection \<open>Hover and unhover\<close>

text \<open>
  Claim C5 fails on its own example.  After the first render, a node with hover and
  unhover handlers is hit on frames 1 and 2 and not on frame 3: its hover handler is
  called on frame 1 and again on frame 2, because frame 1 changed the cursor and frame 2
  is handled on a new, empty \<open>hovered\<close> table.  When the node is hit on frame 1 only,
  its unhover handler is never called: the table that held it is gone on frame 2.
\<close>

theorem hover_fires_again_after_cursor_change:
  "map_option calls
     (moves sceneA [[\<lparr>object_of = 5, distance = 1\<rparr>], [\<lparr>object_of = 5, distance = 2\<rparr>], []] mounted)
     = Some [CallHover 5 10 \<lparr>object_of = 5, distance = 1\<rparr>, CallHover 5 10 \<lparr>object_of = 5, distance = 2\<rparr>,
             CallUnhover 5 11]
   \<and> map_option calls (moves sceneA [[\<lparr>object_of = 5, distance = 1\<rparr>], []] mounted)
     = Some [CallHover 5 10 \<lparr>object_of = 5, distance = 1\<rparr>]"
  by code_simp

section \<open>Reading and writing the store\<close>

lemma bind_simps [simp]:
  "bind (Ok x st) f = f x st"
  "bind (Raise e st) f = Raise e st"
  by (simp_all add: bind_def)

lemma rd_simps [simp]:
  "rd (Inr x) st = Ok x st"
  "rd (Inl e) st = Raise e st"
  by (simp_all add: rd_def)

lemma get_prop_simps [simp]:
  "get_prop st VUndef k = Inl TypeError"
  "get_prop st VNull k = Inl TypeError"
  "get_prop st (VBool b) k = Inr VUndef"
  "get_prop st (VNum n) k = Inr VUndef"
  "get_prop st VNaN k = Inr VUndef"
  "get_prop st (VStr s) k = Inr VUndef"
  "get_prop st (VFun f) k = Inr VUndef"
  by (simp_all add: get_prop_def)

lemma get_prop_ref:
  "get_prop st (VRef a) k = (case obj_at st a of None \<Rightarrow> Inl TypeError | Some ob \<Rightarrow> Inr (read_obj ob k))"
  by (simp add: get_prop_def)

lemma array_elems_simps [simp]:
  "array_elems st VUndef = Inl TypeError"
  "array_elems st VNull = Inl TypeError"
  "array_elems st (VBool b) = Inl TypeError"
  "array_elems st (VNum n) = Inl TypeError"
  "array_elems st VNaN = Inl TypeError"
  "array_elems st (VStr s) = Inl TypeError"
  "array_elems st (VFun f) = Inl TypeError"
  by (simp_all add: array_elems_def)

lemma array_elems_ref':
  "array_elems st (VRef a) = (case obj_at st a of None \<Rightarrow> Inl TypeError
     | Some ob \<Rightarrow> (case elems ob of None \<Rightarrow> Inl TypeError | Some xs \<Rightarrow> Inr xs))"
  by (simp add: array_elems_def)

lemma obj_at_trace [simp]: "obj_at (st\<lparr>trace := t\<rparr>) a = obj_at st a"
  by (simp add: obj_at_def)

lemma get_prop_trace [simp]: "get_prop (st\<lparr>trace := t\<rparr>) v k = get_prop st v k"
  by (cases v) (simp_all add: get_prop_ref)

lemma array_elems_trace [simp]: "array_elems (st\<lparr>trace := t\<rparr>) v = array_elems st v"
  by (cases v) (simp_all add: array_elems_ref')

lemma write_obj_plain:
  "plain_key k \<Longrightarrow> write_obj ob k v = Inr (ob\<lparr>members := AList.update k v (members ob)\<rparr>)"
  by (simp add: write_obj_def plain_key_def split: option.splits)

lemma set_prop_plain:
  assumes "plain_key k" "obj_at st a = Some ob"
  shows "set_prop (VRef a) k v st = Ok () (st\<lparr>heap := (heap st)[a := ob\<lparr>members := AList.update k v (members ob)\<rparr>]\<rparr>)"
  using assms by (simp add: set_prop_def write_obj_plain)

lemma obj_at_update:
  "obj_at st a = Some ob \<Longrightarrow>
   obj_at (st\<lparr>heap := (heap st)[a := ob']\<rparr>) b = (if b = a then Some ob' else obj_at st b)"
  by (auto simp: obj_at_def split: if_splits)

lemma lookup_update: "lookup (AList.update k v al) k' = (if k' = k then v else lookup al k')"
  by (simp add: lookup_def update_conv')

lemma read_obj_plain_write:
  "plain_key k \<Longrightarrow> read_obj (ob\<lparr>members := AList.update k v (members ob)\<rparr>) k' =
     (if k' = k then v else read_obj ob k')"
  by (auto simp: read_obj_def lookup_update plain_key_def split: option.splits)

lemma get_prop_after_plain_write:
  assumes k: "plain_key k" and a: "obj_at st a = Some ob"
  shows "get_prop (st\<lparr>heap := (heap st)[a := ob\<lparr>members := AList.update k v (members ob)\<rparr>]\<rparr>) w k' =
         (if w = VRef a \<and> k' = k then Inr v else get_prop st w k')"
proof (cases w)
  case (VRef b)
  then show ?thesis using a
    by (cases "b = a") (simp_all add: get_prop_ref obj_at_update [OF a] read_obj_plain_write [OF k])
qed simp_all

lemma array_elems_after_plain_write:
  assumes a: "obj_at st a = Some ob"
  shows "array_elems (st\<lparr>heap := (heap st)[a := ob\<lparr>members := m\<rparr>]\<rparr>) w = array_elems st w"
proof (cases w)
  case (VRef b)
  then show ?thesis using a by (cases "b = a") (simp_all add: array_elems_ref' obj_at_update [OF a])
qed simp_all

lemma obj_at_alloc:
  "obj_at (snd (alloc ob st)) a = (if a = length (heap st) then Some ob else obj_at st a)"
  by (auto simp: alloc_def obj_at_def nth_append)

lemma obj_at_Some_less: "obj_at st a = Some ob \<Longrightarrow> a < length (heap st)"
  by (simp add: obj_at_def split: if_splits)

lemma get_prop_alloc:
  "get_prop st w k = Inr x \<Longrightarrow> get_prop (snd (alloc ob st)) w k = Inr x"
proof (cases w)
  case (VRef a)
  assume "get_prop st w k = Inr x"
  with VRef obtain oa where "obj_at st a = Some oa" "x = read_obj oa k"
    by (auto simp: get_prop_ref split: option.splits)
  then show ?thesis using VRef obj_at_Some_less [of st a oa]
    by (simp add: get_prop_ref obj_at_alloc)
qed simp_all

lemma get_prop_Inr_ref:
  "get_prop st w k = Inr x \<Longrightarrow> x \<noteq> VUndef \<Longrightarrow> \<exists>a ob. w = VRef a \<and> obj_at st a = Some ob"
  by (cases w) (auto simp: get_prop_ref split: option.splits)

lemma array_elems_ref:
  "array_elems st w = Inr xs \<Longrightarrow> \<exists>a ob. w = VRef a \<and> obj_at st a = Some ob \<and> elems ob = Some xs"
  by (cases w) (auto simp: array_elems_ref' split: option.splits)

lemma indexOf_first:
  "\<forall>b \<in> set before. \<not> strict_eq b y \<Longrightarrow> strict_eq y y \<Longrightarrow> indexOf (before @ y # after) y = int (length before)"
  by (induction before) (auto simp: Let_def)

lemma slice_at:
  "slice_to (before @ ys) (int (length before)) = before"
  "slice_from (before @ ys) (int (length before)) = ys"
  by (simp_all add: slice_to_def slice_from_def clamp_index_def)

lemma plain_key_simps [simp]: "plain_key ''parent''" "plain_key ''children''" "plain_key ''current''" "plain_key ''__handlers''"
  by (simp_all add: plain_key_def index_key_def is_digit_def)

section \<open>insertBefore\<close>

text \<open>
  Claim C2.  Let the child be a structural node (its \<open>isObject3D\<close> is truthy) and
  let the child list of the parent be \<open>before @ y # after\<close>, where \<open>y\<close> is the
  reference child and does not occur in \<open>before\<close>.  Then \<open>insertBefore\<close> returns
  normally, the parent's child list is \<open>before @ child # y # after\<close>, in a new array,
  and the parent of the child is the parent.  With \<open>before = [A]\<close> and
  \<open>after = [C]\<close>: from \<open>[A, Y, C]\<close> to \<open>[A, X, Y, C]\<close>.
\<close>

theorem insertBefore_splices:
  assumes child: "get_prop st child ''isObject3D'' = Inr flag" "truthy flag"
    and ch: "get_prop st parent ''children'' = Inr ch"
    and xs: "array_elems st ch = Inr (before @ y # after)"
    and first: "\<forall>b \<in> set before. \<not> strict_eq b y" "strict_eq y y"
  shows "\<exists>st' c. insertBefore parent child y st = Ok () st'
           \<and> get_prop st' parent ''children'' = Inr (VRef c)
           \<and> array_elems st' (VRef c) = Inr (before @ child # y # after)
           \<and> get_prop st' child ''parent'' = Inr parent"
proof -
  from child obtain x xo where x: "child = VRef x" "obj_at st x = Some xo"
    using get_prop_Inr_ref [OF child(1)] by (cases flag) auto
  from array_elems_ref [OF xs] obtain c co where c: "ch = VRef c" "obj_at st c = Some co" "elems co = Some (before @ y # after)"
    by blast
  from get_prop_Inr_ref [OF ch] c obtain p po where p: "parent = VRef p" "obj_at st p = Some po"
    by auto
  define st1 where "st1 = st\<lparr>heap := (heap st)[x := xo\<lparr>members := AList.update ''parent'' parent (members xo)\<rparr>]\<rparr>"
  have s1: "set_prop child ''parent'' parent st = Ok () st1"
    unfolding st1_def x(1) by (rule set_prop_plain [OF _ x(2)]) simp
  have g1: "get_prop st1 w k = (if w = VRef x \<and> k = ''parent'' then Inr parent else get_prop st w k)" for w k
    unfolding st1_def by (rule get_prop_after_plain_write [OF _ x(2)]) simp
  have a1: "array_elems st1 w = array_elems st w" for w
    unfolding st1_def by (rule array_elems_after_plain_write [OF x(2)])
  define st2 where "st2 = st1\<lparr>trace := trace st1 @ [Dispatch child ''added'']\<rparr>"
  have ch2: "get_prop st2 parent ''children'' = Inr ch" by (simp add: st2_def g1 ch)
  have xs2: "array_elems st2 ch = Inr (before @ y # after)" by (simp add: st2_def a1 xs)
  have idx: "indexOf (before @ y # after) y = int (length before)"
    by (rule indexOf_first [OF first])
  define arr where "arr = \<lparr>cls = ''Array'', members = [], elems = Some (before @ child # y # after)\<rparr>"
  define st3 where "st3 = snd (alloc arr st2)"
  define n where "n = length (heap st2)"
  have al: "alloc arr st2 = (n, st3)" by (simp add: alloc_def st3_def n_def)
  have p2: "obj_at st2 p = Some (if p = x then xo\<lparr>members := AList.update ''parent'' parent (members xo)\<rparr> else po)"
    using p x by (simp add: st2_def st1_def obj_at_update [OF x(2)])
  then obtain po2 where po2: "obj_at st2 p = Some po2" by simp
  have pn: "p \<noteq> n" using po2 by (auto simp: obj_at_def n_def split: if_splits)
  have p3: "obj_at st3 p = Some po2" using po2 pn by (simp add: st3_def obj_at_alloc n_def)
  define st4 where "st4 = st3\<lparr>heap := (heap st3)[p := po2\<lparr>members := AList.update ''children'' (VRef n) (members po2)\<rparr>]\<rparr>"
  have s4: "set_prop parent ''children'' (VRef n) st3 = Ok () st4"
    unfolding st4_def p(1) by (rule set_prop_plain [OF _ p3]) simp
  have run: "insertBefore parent child y st = Ok () st4"
  proof -
    have tc: "truthy child" by (simp add: x(1))
    have ch1: "get_prop st1 parent ''children'' = Inr ch" by (simp add: g1 ch)
    show ?thesis
      using child tc s1 ch1 xs2 idx al s4
      by (simp add: insertBefore_def dispatchEvent_def st2_def [symmetric] slice_at arr_def [symmetric])
  qed
  have g4: "get_prop st4 w k = (if w = VRef p \<and> k = ''children'' then Inr (VRef n) else get_prop st3 w k)" for w k
    unfolding st4_def by (rule get_prop_after_plain_write [OF _ p3]) simp
  have r1: "get_prop st4 parent ''children'' = Inr (VRef n)" by (simp add: g4 p(1))
  have n3: "obj_at st3 n = Some arr" by (simp add: st3_def obj_at_alloc n_def)
  have "array_elems st4 (VRef n) = array_elems st3 (VRef n)"
    unfolding st4_def by (rule array_elems_after_plain_write [OF p3])
  then have r2: "array_elems st4 (VRef n) = Inr (before @ child # y # after)"
    using n3 by (simp add: array_elems_def arr_def)
  have "get_prop st2 child ''parent'' = Inr parent" by (simp add: st2_def g1 x(1))
  then have "get_prop st3 child ''parent'' = Inr parent" unfolding st3_def by (rule get_prop_alloc)
  then have r3: "get_prop st4 child ''parent'' = Inr parent" by (simp add: g4)
  show ?thesis using run r1 r2 r3 by blast
qed

theorem insertBefore_splices_witness:
  "\<exists>st' c. insertBefore (VRef 0) (VRef 8) (VRef 4) scene_store = Ok () st'
           \<and> get_prop st' (VRef 0) ''children'' = Inr (VRef c)
           \<and> array_elems st' (VRef c) = Inr [VRef 2, VRef 8, VRef 4, VRef 6]
           \<and> get_prop st' (VRef 8) ''parent'' = Inr (VRef 0)"
proof -
  have 1: "get_prop scene_store (VRef 8) ''isObject3D'' = Inr (VBool True)" by code_simp
  have 2: "truthy (VBool True)" by simp
  have 3: "get_prop scene_store (VRef 0) ''children'' = Inr (VRef 1)" by code_simp
  have 4: "array_elems scene_store (VRef 1) = Inr ([VRef 2] @ VRef 4 # [VRef 6])" by code_simp
  have 5: "\<forall>b \<in> set [VRef 2]. \<not> strict_eq b (VRef 4)" by (simp add: strict_eq_def)
  have 6: "strict_eq (VRef 4) (VRef 4)" by (simp add: strict_eq_def)
  from insertBefore_splices [OF 1 2 3 4 5 6] show ?thesis by simp
qed

section \<open>appendChild of a leaf without a name\<close>

text \<open>
  Claim C10.  When the child is a placeholder (its \<open>isObject3D\<close> is not truthy) and
  the \<open>name\<close> of the resource it wraps is not truthy, \<open>appendChild\<close> returns
  normally and the store is the one it started in: no field of the parent, of the
  placeholder or of any other object is written, and nothing is called.
\<close>

theorem appendChild_unnamed_leaf:
  assumes "truthy child"
    and "get_prop st child ''isObject3D'' = Inr flag" "\<not> truthy flag"
    and "get_prop st child ''current'' = Inr cur"
    and "get_prop st cur ''name'' = Inr name" "\<not> truthy name"
  shows "appendChild parent child st = Ok () st"
  using assms by (simp add: appendChild_def)

theorem appendChild_unnamed_leaf_witness:
  "appendChild (VRef 0) (VRef 3) leaf_store = Ok () leaf_store"
proof -
  have 1: "truthy (VRef 3)" by simp
  have 2: "get_prop leaf_store (VRef 3) ''isObject3D'' = Inr VUndef" by code_simp
  have 3: "\<not> truthy VUndef" by simp
  have 4: "get_prop leaf_store (VRef 3) ''current'' = Inr (VRef 2)" by code_simp
  have 5: "get_prop leaf_store (VRef 2) ''name'' = Inr (VStr '''')" by code_simp
  have 6: "\<not> truthy (VStr '''')" by simp
  from appendChild_unnamed_leaf [OF 1 2 3 4 5 6] show ?thesis .
qed

section \<open>applyProps: when nothing changed\<close>

lemma filteredProps_same:
  assumes "\<forall>key \<in> set (map fst newProps). strict_eq (lookup newProps key) (lookup oldProps key)"
  shows "filteredProps newProps oldProps = []"
proof -
  have "sameProps newProps oldProps = map fst newProps"
    using assms by (simp add: sameProps_def)
  then show ?thesis
    by (force simp: filteredProps_def omit_def filter_empty_conv)
qed

lemma applyProps_nothing_to_do:
  "filteredProps newProps oldProps = [] \<Longrightarrow> applyProps x newProps oldProps st = Ok () st"
  by (simp add: applyProps_def)

lemma lookup_not_in_set: "v \<notin> snd ` set ps \<Longrightarrow> v \<noteq> VUndef \<Longrightarrow> lookup ps k \<noteq> v"
  by (force simp: lookup_def split: option.splits dest!: map_of_SomeD)

text \<open>
  Claim C3, as amended.  \<open>applyProps\<close> returns normally in the store it started
  in, so it writes no field and builds no handler table, when \<open>newProps\<close> is empty,
  and when every key of \<open>newProps\<close> has a value \<open>===\<close> to the value of that key
  in \<open>oldProps\<close>.  Hence applying a prop set a second time, with the same set as
  \<open>oldProps\<close>, leaves the store of the first application as it is, provided no value
  of the set is \<open>NaN\<close>, the one value that is not \<open>===\<close> to itself.
\<close>

theorem applyProps_noop:
  "applyProps x [] oldProps st = Ok () st
   \<and> ((\<forall>key \<in> set (map fst newProps). strict_eq (lookup newProps key) (lookup oldProps key))
        \<longrightarrow> applyProps x newProps oldProps st = Ok () st)
   \<and> (VNaN \<notin> snd ` set newProps \<longrightarrow> applyProps x newProps newProps st = Ok () st)"
proof (intro conjI impI)
  show "applyProps x [] oldProps st = Ok () st"
    by (simp add: applyProps_def filteredProps_def omit_def)
next
  assume "\<forall>key \<in> set (map fst newProps). strict_eq (lookup newProps key) (lookup oldProps key)"
  then show "applyProps x newProps oldProps st = Ok () st"
    by (intro applyProps_nothing_to_do filteredProps_same)
next
  assume n: "VNaN \<notin> snd ` set newProps"
  have "strict_eq (lookup newProps key) (lookup newProps key)" for key
    using lookup_not_in_set [OF n, of key] by (simp add: strict_eq_def)
  then show "applyProps x newProps newProps st = Ok () st"
    by (intro applyProps_nothing_to_do filteredProps_same) simp
qed

theorem applyProps_noop_witness:
  "applyProps (VRef 0) [] [] scene_store = Ok () scene_store
   \<and> applyProps (VRef 0) [(''visible'', VBool False), (''name'', VStr ''m''), (''onClick'', VFun 7)]
        [(''onClick'', VFun 7), (''name'', VStr ''m''), (''visible'', VBool False), (''scale'', VNum 2)] scene_store = Ok () scene_store
   \<and> applyProps (VRef 0) [(''visible'', VBool False), (''position-x'', VNum 1)] [(''visible'', VBool False), (''position-x'', VNum 1)] scene_store = Ok () scene_store"
proof -
  note t = applyProps_noop [of "VRef 0" _ scene_store]
  have 1: "\<forall>key \<in> set (map fst [(''visible'', VBool False), (''name'', VStr ''m''), (''onClick'', VFun 7)]).
     strict_eq (lookup [(''visible'', VBool False), (''name'', VStr ''m''), (''onClick'', VFun 7)] key)
       (lookup [(''onClick'', VFun 7), (''name'', VStr ''m''), (''visible'', VBool False), (''scale'', VNum 2)] key)"
    by (simp add: lookup_def strict_eq_def)
  have 2: "VNaN \<notin> snd ` set [(''visible'', VBool False), (''position-x'', VNum 1)]" by simp
  from t [of "[]" "[]", THEN conjunct1]
    t [THEN conjunct2, THEN conjunct1, THEN mp, OF 1]
    t [THEN conjunct2, THEN conjunct2, THEN mp, OF 2]
  show ?thesis by simp
qed


text \<open>
  Claim C3 as stated fails for a prop set with a \<open>NaN\<close>: applied a second time,
  with the same set as \<open>oldProps\<close>, the prop \<open>foo\<close> counts as changed, so the
  handler table is built again (a new table, at address 11 after the one at address 10)
  and the \<open>update\<close> callback is invoked a second time.
\<close>

theorem applyProps_noop_counterexample:
  "trace (final (applyProps (VRef 0) [(''foo'', VNaN), (''onUpdate'', VFun 8)] [] scene_store))
     = [Invoke 8 (VRef 10) [VRef 0]]
   \<and> get_prop (final (applyProps (VRef 0) [(''foo'', VNaN), (''onUpdate'', VFun 8)] [] scene_store))
        (VRef 0) ''__handlers'' = Inr (VRef 10)
   \<and> trace (final (applyProps (VRef 0) [(''foo'', VNaN), (''onUpdate'', VFun 8)] [(''foo'', VNaN), (''onUpdate'', VFun 8)]
        (final (applyProps (VRef 0) [(''foo'', VNaN), (''onUpdate'', VFun 8)] [] scene_store))))
     = [Invoke 8 (VRef 10) [VRef 0], Invoke 8 (VRef 11) [VRef 0]]
   \<and> get_prop (final (applyProps (VRef 0) [(''foo'', VNaN), (''onUpdate'', VFun 8)] [(''foo'', VNaN), (''onUpdate'', VFun 8)]
        (final (applyProps (VRef 0) [(''foo'', VNaN), (''onUpdate'', VFun 8)] [] scene_store))))
        (VRef 0) ''__handlers'' = Inr (VRef 11)"
  by code_simp

section \<open>applyProps: handler props\<close>

text \<open>
  Claim C4 (the code at the failing input).  Handler props are left out of
  \<open>filteredProps\<close>, and the handler table is built only inside the branch that runs
  when \<open>filteredProps\<close> is not empty.  So a call whose only changed props are
  handlers builds no table: mounting a node with \<open>onClick\<close> alone leaves it without
  \<open>__handlers\<close>, and replacing the \<open>onClick\<close> callback while every other prop
  is unchanged leaves the old table in place.
\<close>

theorem handler_only_change_not_installed:
  "applyProps (VRef 0) [(''onClick'', VFun 7)] [] scene_store = Ok () scene_store
   \<and> get_prop scene_store (VRef 0) ''__handlers'' = Inr VUndef
   \<and> applyProps (VRef 0) [(''name'', VStr ''m''), (''onClick'', VFun 8)]
        [(''name'', VStr ''m''), (''onClick'', VFun 7)] scene_store = Ok () scene_store"
  by code_simp

section \<open>applyProps: a path that runs into nothing\<close>

lemma for_each_append:
  "for_each f (xs @ ys) st =
     (case for_each f xs st of Raise e s \<Rightarrow> Raise e s | Ok u s \<Rightarrow> for_each f ys s)"
  by (induction xs arbitrary: st) (auto split: outcome.splits)

lemma get_prop_error: "get_prop st v k = Inl e \<Longrightarrow> e = TypeError"
  by (cases v) (auto simp: get_prop_ref split: option.splits)

lemma resolve_append:
  "resolve st v (ks @ ks') = (case resolve st v ks of Inl e \<Rightarrow> Inl e | Inr w \<Rightarrow> resolve st w ks')"
  by (induction ks arbitrary: v) (auto split: sum.splits)

lemma resolve_nothing:
  "w = VUndef \<or> w = VNull \<Longrightarrow> resolve st w (k # rest) = Inl TypeError"
  by auto

lemma locate_missing:
  assumes dash: "CHR ''-'' \<in> set key"
    and miss: "split_dash key = ks @ k # rest" "resolve st instance ks = Inr w" "w = VUndef \<or> w = VNull"
  shows "locate st instance key = Inl TypeError"
proof (cases "get_prop st instance key")
  case (Inl e)
  then show ?thesis using get_prop_error [OF Inl] by (simp add: locate_def)
next
  case (Inr t0)
  have "resolve st instance (split_dash key) = Inl TypeError"
    unfolding miss(1) resolve_append miss(2) using resolve_nothing [OF miss(3)] by simp
  then show ?thesis using Inr dash by (simp add: locate_def)
qed

text \<open>
  Claim C8, as amended.  Let the props that \<open>applyProps\<close> is going to write
  (\<open>filteredProps\<close>: changed, not a handler, not reserved) contain an entry whose key
  has a dash and whose path runs into \<open>undefined\<close> or \<open>null\<close> before its last
  segment, and let the entries before it be applied normally, which leaves the store
  \<open>st1\<close>.  Then the call throws a TypeError in the store \<open>st1\<close>: the offending
  entry writes nothing, anywhere, and the entries before it stay written.
\<close>

theorem applyProps_missing_intermediate:
  assumes fp: "filteredProps newProps oldProps = pre @ (key, value) # post"
    and pre: "for_each (apply_entry instance) pre st = Ok () st1"
    and dash: "CHR ''-'' \<in> set key"
    and miss: "split_dash key = ks @ k # rest" "resolve st1 instance ks = Inr w" "w = VUndef \<or> w = VNull"
  shows "applyProps instance newProps oldProps st = Raise TypeError st1"
proof -
  have "apply_entry instance (key, value) st1 = Raise TypeError st1"
    using locate_missing [OF dash miss] by (simp add: apply_entry_def)
  then have "for_each (apply_entry instance) (pre @ (key, value) # post) st = Raise TypeError st1"
    by (simp add: for_each_append pre)
  then show ?thesis by (simp add: applyProps_def fp)
qed

theorem applyProps_missing_intermediate_witness:
  "applyProps (VRef 0) [(''visible'', VBool True), (''material-color'', VNum 2), (''name'', VStr ''m'')] [] scene_store
     = Raise TypeError scene_store_visible"
proof -
  let ?st1 = "scene_store_visible"
  have 1: "filteredProps [(''visible'', VBool True), (''material-color'', VNum 2), (''name'', VStr ''m'')] []
      = [(''visible'', VBool True)] @ (''material-color'', VNum 2) # [(''name'', VStr ''m'')]"
    by code_simp
  have 2: "for_each (apply_entry (VRef 0)) [(''visible'', VBool True)] scene_store = Ok () ?st1"
    by code_simp
  have 3: "CHR ''-'' \<in> set ''material-color''" by simp
  have 4: "split_dash ''material-color'' = [''material''] @ ''color'' # []" by code_simp
  have 5: "resolve ?st1 (VRef 0) [''material''] = Inr VUndef" by code_simp
  have 6: "VUndef = VUndef \<or> VUndef = VNull" by simp
  from applyProps_missing_intermediate [OF 1 2 3 4 5 6] show ?thesis .
qed

text \<open>
  Claim C8 as stated fails.  On the scene, where the node at address 0 has no
  \<open>material\<close>: the call with \<open>visible\<close> and \<open>material-color\<close> throws, but after it
  has written \<open>visible\<close>; and the call in which \<open>material-color\<close> has the value it
  had before does not throw.
\<close>

theorem applyProps_missing_intermediate_counterexample:
  "applyProps (VRef 0) [(''visible'', VBool True), (''material-color'', VNum 2)] [] scene_store
     = Raise TypeError scene_store_visible
   \<and> get_prop scene_store (VRef 0) ''visible'' = Inr VUndef
   \<and> get_prop scene_store_visible (VRef 0) ''visible'' = Inr (VBool True)
   \<and> resolve scene_store (VRef 0) [''material''] = Inr VUndef
   \<and> applyProps (VRef 0) [(''material-color'', VNum 2)] [(''material-color'', VNum 2)] scene_store
     = Ok () scene_store"
  by code_simp

section \<open>What applyProps leaves\<close>







lemma grown_refl [simp]: "grown st st"
  by (simp add: grown_def)













section \<open>commitUpdate on a placeholder\<close>








section \<open>No leaf in a child list\<close>

subsection \<open>Benign steps\<close>

lemma similar_refl [simp]: "similar ob ob"
  by (simp add: similar_def)



lemma benign_refl [simp]: "benign st st"
  by (simp add: benign_def)





lemma final_bind:
  "final (bind m f) = (case m of Ok x s \<Rightarrow> final (f x s) | Raise e s \<Rightarrow> s)"
  by (cases m) simp_all

lemma final_rd [simp]: "final (rd r st) = st"
  by (cases r) simp_all























subsection \<open>Steps that keep the invariant\<close>










lemma plain_key_more [simp]: "plain_key ''isObject3D''" "plain_key ''name''"
  by (simp_all add: plain_key_def index_key_def is_digit_def)

















subsection \<open>The adapter operations\<close>

















subsection \<open>Operations on a child that is not a structural node\<close>











subsection \<open>A run\<close>











end
